theory Spec2Isabelle
  imports Complex_Main
begin

section \<open>predict.py: one prediction of the pickled model, as JSON\<close>

text \<open>
  The script \<^verbatim>\<open>src/predict.py\<close> is one straight run: it imports its libraries, finds and
  unpickles the model file, reads two positional arguments, builds a one-row data frame and
  prints the model's prediction as JSON. Everything it does beyond computing is done to the
  outside world: the module search path, the file system, \<^verbatim>\<open>sys.argv\<close>, the string hash of
  the interpreter, pandas and the unpickled model. The embedding passes that world in as a
  record \<open>env\<close> and returns what the process leaves behind as a record \<open>outcome\<close>: the
  lines printed on stdout and stderr, the exit code, and the inputs handed to
  \<^verbatim>\<open>model.predict\<close>.
\<close>

subsection \<open>Values of the Python run\<close>

text \<open>
  An exception is its class name and \<^verbatim>\<open>str(e)\<close>. All exceptions of the model derive from
  \<^verbatim>\<open>Exception\<close>, so \<^verbatim>\<open>except Exception\<close> catches each of them
  (\<^verbatim>\<open>KeyboardInterrupt\<close> and \<^verbatim>\<open>SystemExit\<close> raised inside a library are left out).
\<close>

datatype py_exc = PyExc (exc_class: string) (exc_str: string)

text \<open>
  What \<^verbatim>\<open>json.dumps\<close> is given. A printed line is represented by the value that was
  serialised, keys in insertion order. Finite floats are the reals they denote.
\<close>

datatype json =
    JStr string
  | JNum real
  | JList "json list"
  | JObj "(string \<times> json) list"

text \<open>
  What \<^verbatim>\<open>pd.to_datetime\<close> returns for one string: a timezone-naive \<^verbatim>\<open>Timestamp\<close>
  (nanoseconds since 1970-01-01T00:00:00), a timezone-aware one (nanoseconds since the
  epoch in UTC), or \<^verbatim>\<open>NaT\<close> (for the empty string and the strings pandas reads as
  missing).
\<close>

datatype datetime = Timestamp int | TimestampTZ int | NaT

text \<open>A cell of the feature row: a Python \<^verbatim>\<open>int\<close>, or the float \<^verbatim>\<open>nan\<close>.\<close>

datatype cell = CInt int | CNaN

type_synonym features = "(string \<times> cell) list"

text \<open>\<^verbatim>\<open>pd.DataFrame([features])\<close>: the rows, each with its columns in insertion order.\<close>

type_synonym dataframe = "features list"

text \<open>
  The unpickled object, seen through the one thing the script does with it:
  \<^verbatim>\<open>model.predict(input_data).tolist()\<close>, which raises or gives the list of predictions
  (an XGBoost estimator returns a one-dimensional array).
\<close>

type_synonym model = "dataframe \<Rightarrow> py_exc + real list"

subsection \<open>The world around one run\<close>

record env =
  import_module :: "string \<Rightarrow> py_exc option"
  script_dir :: string
  path_exists :: "string \<Rightarrow> bool"
  open_rb :: "string \<Rightarrow> py_exc + string"
  pickle_load :: "string \<Rightarrow> py_exc + model"
  argv :: "string list"
  py_hash :: "string \<Rightarrow> int"
  to_datetime :: "string \<Rightarrow> py_exc + datetime"

text \<open>
  \<^item> \<open>import_module\<close>: what \<^verbatim>\<open>import name\<close> does for a third-party module,
    \<open>None\<close> when it succeeds and the exception it raises otherwise (the standard
    modules \<^verbatim>\<open>sys\<close>, \<^verbatim>\<open>pickle\<close>, \<^verbatim>\<open>json\<close> and \<^verbatim>\<open>os\<close> always import);
  \<^item> \<open>script_dir\<close>: \<^verbatim>\<open>os.path.dirname(__file__)\<close>;
  \<^item> \<open>path_exists\<close>: \<^verbatim>\<open>os.path.exists\<close>;
  \<^item> \<open>open_rb\<close>: the bytes of the file \<^verbatim>\<open>open(path, 'rb')\<close> opens, or its exception;
  \<^item> \<open>pickle_load\<close>: \<^verbatim>\<open>pickle.load\<close> on those bytes;
  \<^item> \<open>argv\<close>: \<^verbatim>\<open>sys.argv\<close>, the script's name first;
  \<^item> \<open>py_hash\<close>: the built-in \<^verbatim>\<open>hash\<close> on strings of this process. CPython keys it
    with a random seed chosen when the interpreter starts, unless \<^verbatim>\<open>PYTHONHASHSEED\<close>
    fixes it: two runs are two values of this field;
  \<^item> \<open>to_datetime\<close>: \<^verbatim>\<open>pd.to_datetime\<close> on a string, at the time of this run (pandas
    reads \<^verbatim>\<open>today\<close> and \<^verbatim>\<open>now\<close> off the clock).
\<close>

datatype stderr_item = ErrJson json | Traceback nat py_exc

text \<open>
  A line on stderr is either a JSON document the script printed itself, or the traceback
  the interpreter prints for an exception nobody caught, with the line of
  \<^verbatim>\<open>predict.py\<close> that raised it.
\<close>

record outcome =
  stdout :: "json list"
  stderr :: "stderr_item list"
  exit_code :: int
  predict_calls :: "dataframe list"

subsection \<open>The script\<close>

text \<open>\<^verbatim>\<open>print(json.dumps({'error': msg}), file=sys.stderr); sys.exit(1)\<close>\<close>

definition exit_error :: "string \<Rightarrow> dataframe list \<Rightarrow> outcome" where
  "exit_error msg calls =
     \<lparr>stdout = [], stderr = [ErrJson (JObj [(''error'', JStr msg)])], exit_code = 1,
      predict_calls = calls\<rparr>"

text \<open>
  An exception that reaches the top level: the interpreter prints the traceback on stderr
  and the process ends with status 1.
\<close>

definition uncaught :: "nat \<Rightarrow> py_exc \<Rightarrow> outcome" where
  "uncaught line x =
     \<lparr>stdout = [], stderr = [Traceback line x], exit_code = 1, predict_calls = []\<rparr>"

text \<open>\<^verbatim>\<open>posixpath.join\<close>, one component at a time.\<close>

definition join_step :: "string \<Rightarrow> string \<Rightarrow> string" where
  "join_step path b =
     (if b \<noteq> [] \<and> hd b = CHR ''/'' then b
      else if path = [] \<or> last path = CHR ''/'' then path @ b
      else path @ ''/'' @ b)"

definition os_path_join :: "string \<Rightarrow> string list \<Rightarrow> string" where
  "os_path_join a ps = foldl join_step a ps"

text \<open>Line 15.\<close>

definition model_path :: "env \<Rightarrow> string" where
  "model_path e = os_path_join (script_dir e) [''Model'', ''xgb_model.pkl'']"

text \<open>Line 11: the message for a missing xgboost.\<close>

definition xgboost_msg :: string where
  "xgboost_msg =
     ''Required module xgboost is not installed. Please install it using '' @
     [CHR 0x22] @ ''pip install xgboost'' @ [CHR 0x22] @ ''.''"

text \<open>\<^verbatim>\<open>xs[i]\<close> for \<open>i \<ge> 0\<close>: \<^verbatim>\<open>IndexError\<close> out of range.\<close>

definition py_index :: "'a list \<Rightarrow> nat \<Rightarrow> py_exc + 'a" where
  "py_index xs i =
     (if i < length xs then Inr (xs ! i)
      else Inl (PyExc ''IndexError'' ''list index out of range''))"

text \<open>Line 33: \<^verbatim>\<open>abs(hash(ticker)) % (10**8)\<close> on Python's unbounded integers.\<close>

definition ticker_numeric :: "env \<Rightarrow> string \<Rightarrow> int" where
  "ticker_numeric e ticker = \<bar>py_hash e ticker\<bar> mod (10 ^ 8)"

text \<open>\<^verbatim>\<open>pd.Timedelta("1D")\<close> in nanoseconds.\<close>

definition ns_per_day :: int where
  "ns_per_day = 86400 * 10 ^ 9"

text \<open>
  Line 36: \<^verbatim>\<open>(pd.to_datetime(start_date) - pd.Timestamp("1970-01-01")) // pd.Timedelta("1D")\<close>.
  The epoch is timezone-naive and has value 0. A naive timestamp minus it is a
  \<^verbatim>\<open>Timedelta\<close>, and the floor division of two \<^verbatim>\<open>Timedelta\<close>s is a Python
  \<^verbatim>\<open>int\<close>. Subtracting a naive timestamp from an aware one raises \<^verbatim>\<open>TypeError\<close>.
  \<^verbatim>\<open>NaT\<close> minus a timestamp is \<^verbatim>\<open>NaT\<close>, and \<^verbatim>\<open>NaT // Timedelta\<close> is
  \<^verbatim>\<open>nan\<close>.
\<close>

definition start_date_numeric :: "env \<Rightarrow> string \<Rightarrow> py_exc + cell" where
  "start_date_numeric e start_date =
     (case to_datetime e start_date of
        Inl x \<Rightarrow> Inl x
      | Inr (Timestamp ns) \<Rightarrow> Inr (CInt ((ns - 0) div ns_per_day))
      | Inr (TimestampTZ ns) \<Rightarrow>
          Inl (PyExc ''TypeError''
                 ''Cannot subtract tz-naive and tz-aware datetime-like objects.'')
      | Inr NaT \<Rightarrow> Inr CNaN)"

text \<open>Lines 40 to 52: the dictionary, keys in the order written.\<close>

definition build_features :: "int \<Rightarrow> cell \<Rightarrow> features" where
  "build_features tn sdn =
     [(''ticker'', CInt tn),
      (''start_date'', sdn),
      (''feature_1'', CInt 0),
      (''feature_2'', CInt 0),
      (''feature_3'', CInt 0),
      (''feature_4'', CInt 0),
      (''feature_5'', CInt 0),
      (''feature_6'', CInt 0),
      (''feature_7'', CInt 0),
      (''feature_8'', CInt 0)]"

text \<open>
  Lines 31 to 53, the body of the first \<^verbatim>\<open>try\<close>: \<open>Inl\<close> is the exception its
  \<^verbatim>\<open>except Exception\<close> receives.
\<close>

definition preprocess :: "env \<Rightarrow> string \<Rightarrow> string \<Rightarrow> py_exc + dataframe" where
  "preprocess e ticker start_date =
     (let tn = ticker_numeric e ticker in
      case start_date_numeric e start_date of
        Inl x \<Rightarrow> Inl x
      | Inr sdn \<Rightarrow> Inr [build_features tn sdn])"

text \<open>Lines 59 to 64.\<close>

definition make_prediction :: "model \<Rightarrow> string \<Rightarrow> string \<Rightarrow> dataframe \<Rightarrow> outcome" where
  "make_prediction m ticker start_date input_data =
     (case m input_data of
        Inl x \<Rightarrow> exit_error (exc_str x) [input_data]
      | Inr prediction \<Rightarrow>
          \<lparr>stdout = [JObj [(''ticker'', JStr ticker), (''start_date'', JStr start_date),
                           (''prediction'', JList (map JNum prediction))]],
           stderr = [], exit_code = 0, predict_calls = [input_data]\<rparr>)"

text \<open>Lines 26 to 64: what happens once the model is loaded.\<close>

definition run_model :: "env \<Rightarrow> model \<Rightarrow> outcome" where
  "run_model e m =
     (case py_index (argv e) 1 of
        Inl x \<Rightarrow> uncaught 27 x
      | Inr ticker \<Rightarrow>
          (case py_index (argv e) 2 of
             Inl x \<Rightarrow> uncaught 28 x
           | Inr start_date \<Rightarrow>
               (case preprocess e ticker start_date of
                  Inl x \<Rightarrow> exit_error (''Failed to preprocess inputs: '' @ exc_str x) []
                | Inr input_data \<Rightarrow> make_prediction m ticker start_date input_data)))"

text \<open>
  Lines 5 to 24: the imports, the existence check and the load. \<open>Inl\<close> is the outcome
  of a process that ended there, \<open>Inr\<close> the unpickled model. pandas and numpy are
  imported bare, so an exception of theirs reaches the top level. The import of xgboost
  stands in a \<^verbatim>\<open>try\<close> that catches \<^verbatim>\<open>ModuleNotFoundError\<close> and nothing else. The
  missing file is reported by the script itself; \<^verbatim>\<open>open\<close> and \<^verbatim>\<open>pickle.load\<close>
  stand outside every \<^verbatim>\<open>try\<close>.
\<close>

definition load_model :: "env \<Rightarrow> outcome + model" where
  "load_model e =
     (case import_module e ''pandas'' of
        Some x \<Rightarrow> Inl (uncaught 5 x)
      | None \<Rightarrow>
          (case import_module e ''numpy'' of
             Some x \<Rightarrow> Inl (uncaught 6 x)
           | None \<Rightarrow>
               (case import_module e ''xgboost'' of
                  Some x \<Rightarrow>
                    if exc_class x = ''ModuleNotFoundError''
                    then Inl (exit_error xgboost_msg [])
                    else Inl (uncaught 9 x)
                | None \<Rightarrow>
                    if \<not> path_exists e (model_path e) then
                      Inl (exit_error (''Model file not found at '' @ model_path e) [])
                    else
                      (case open_rb e (model_path e) of
                         Inl x \<Rightarrow> Inl (uncaught 23 x)
                       | Inr f \<Rightarrow>
                           (case pickle_load e f of
                              Inl x \<Rightarrow> Inl (uncaught 24 x)
                            | Inr m \<Rightarrow> Inr m)))))"

text \<open>The whole script.\<close>

definition main :: "env \<Rightarrow> outcome" where
  "main e = (case load_model e of Inl out \<Rightarrow> out | Inr m \<Rightarrow> run_model e m)"

subsection \<open>What the specification asks of an outcome\<close>

text \<open>
  The two shapes the specification allows a finished process: status 0 with one JSON
  document on stdout and nothing on stderr, or status 1 with one object
  \<^verbatim>\<open>{"error": message}\<close> on stderr and nothing on stdout.
\<close>

fun is_error_line :: "stderr_item \<Rightarrow> bool" where
  "is_error_line (ErrJson (JObj [(k, JStr msg)])) = (k = ''error'')"
| "is_error_line _ = False"

definition json_success :: "outcome \<Rightarrow> bool" where
  "json_success out = (exit_code out = 0 \<and> length (stdout out) = 1 \<and> stderr out = [])"

definition json_failure :: "outcome \<Rightarrow> bool" where
  "json_failure out =
     (exit_code out = 1 \<and> stdout out = [] \<and> length (stderr out) = 1 \<and>
      list_all is_error_line (stderr out))"

text \<open>\<open>mentions s p\<close>: the text \<open>p\<close> occurs in \<open>s\<close>.\<close>

definition mentions :: "string \<Rightarrow> string \<Rightarrow> bool" where
  "mentions s p = list_ex (\<lambda>i. take (length p) (drop i s) = p) [0..<Suc (length s)]"

text \<open>The column names the specification gives the feature record.\<close>

definition spec_field_names :: "string list" where
  "spec_field_names =
     [''ticker_numeric'', ''start_date_numeric'', ''feature_1'', ''feature_2'', ''feature_3'',
      ''feature_4'', ''feature_5'', ''feature_6'', ''feature_7'', ''feature_8'']"

subsection \<open>A concrete world\<close>

text \<open>
  One installation to run the script in: the script lives in \<^verbatim>\<open>/srv/app\<close>, the model
  file holds a small linear model, and the libraries are replaced by stand-ins that agree
  with them on the inputs used below.
\<close>

text \<open>
  Days from 1970-01-01 to a date of the proleptic Gregorian calendar (the era-based
  computation, with floor division).
\<close>

definition days_from_civil :: "int \<Rightarrow> int \<Rightarrow> int \<Rightarrow> int" where
  "days_from_civil y m d =
     (let y' = (if m \<le> 2 then y - 1 else y);
          era = y' div 400;
          yoe = y' - era * 400;
          doy = (153 * (if m > 2 then m - 3 else m + 9) + 2) div 5 + d - 1;
          doe = yoe * 365 + yoe div 4 - yoe div 100 + doy
      in era * 146097 + doe - 719468)"

definition digit :: "char \<Rightarrow> int option" where
  "digit c =
     (let n = (of_char c :: nat) in if 48 \<le> n \<and> n \<le> 57 then Some (int n - 48) else None)"

fun digits_val :: "int \<Rightarrow> string \<Rightarrow> int option" where
  "digits_val acc [] = Some acc"
| "digits_val acc (c # cs) =
     (case digit c of None \<Rightarrow> None | Some v \<Rightarrow> digits_val (10 * acc + v) cs)"

text \<open>\<^verbatim>\<open>YYYY-MM-DD\<close>, nothing else.\<close>

definition parse_iso_date :: "string \<Rightarrow> (int \<times> int \<times> int) option" where
  "parse_iso_date s =
     (if length s = 10 \<and> s ! 4 = CHR ''-'' \<and> s ! 7 = CHR ''-'' then
        (case digits_val 0 (take 4 s) of
           None \<Rightarrow> None
         | Some y \<Rightarrow>
             (case digits_val 0 (take 2 (drop 5 s)) of
                None \<Rightarrow> None
              | Some m \<Rightarrow>
                  (case digits_val 0 (drop 8 s) of
                     None \<Rightarrow> None
                   | Some d \<Rightarrow>
                       if 1 \<le> m \<and> m \<le> 12 \<and> 1 \<le> d \<and> d \<le> 31 then Some (y, m, d)
                       else None)))
      else None)"

text \<open>
  A stand-in for \<^verbatim>\<open>pd.to_datetime\<close> on four kinds of string: the empty string and
  \<^verbatim>\<open>NaT\<close> give \<^verbatim>\<open>NaT\<close>; an ISO date gives midnight of that day, timezone-naive;
  an ISO date followed by \<^verbatim>\<open>T00:00:00Z\<close> gives that midnight in UTC, timezone-aware;
  anything else raises, as pandas does on \<^verbatim>\<open>not-a-date\<close>.
\<close>

definition iso_to_datetime :: "string \<Rightarrow> py_exc + datetime" where
  "iso_to_datetime s =
     (if s = [] \<or> s = ''NaT'' then Inr NaT
      else
        (case parse_iso_date s of
           Some (y, m, d) \<Rightarrow> Inr (Timestamp (days_from_civil y m d * ns_per_day))
         | None \<Rightarrow>
             (case (if drop 10 s = ''T00:00:00Z'' then parse_iso_date (take 10 s) else None) of
                Some (y, m, d) \<Rightarrow> Inr (TimestampTZ (days_from_civil y m d * ns_per_day))
              | None \<Rightarrow>
                  Inl (PyExc ''DateParseError''
                         (''Unknown datetime string format, unable to parse: '' @ s)))))"

text \<open>A stand-in for the seeded string hash: a polynomial hash started at the seed.\<close>

definition seeded_hash :: "int \<Rightarrow> string \<Rightarrow> int" where
  "seeded_hash seed s = foldl (\<lambda>h c. 31 * h + int (of_char c)) seed s"

text \<open>
  The model in the file: it checks the ten column names it was trained with, as the
  XGBoost estimators do, and predicts from the first two columns of the one row.
\<close>

definition trained_names :: "string list" where
  "trained_names =
     [''ticker'', ''start_date'', ''feature_1'', ''feature_2'', ''feature_3'', ''feature_4'',
      ''feature_5'', ''feature_6'', ''feature_7'', ''feature_8'']"

fun cell_value :: "cell \<Rightarrow> real" where
  "cell_value (CInt n) = real_of_int n"
| "cell_value CNaN = 0"

definition linear_model :: model where
  "linear_model df =
     (case df of
        [row] \<Rightarrow>
          if map fst row = trained_names
          then Inr [cell_value (snd (row ! 0)) / 1000 + cell_value (snd (row ! 1))]
          else Inl (PyExc ''ValueError'' ''feature_names mismatch'')
      | _ \<Rightarrow> Inl (PyExc ''ValueError'' ''expected one row''))"

definition unpickle :: "string \<Rightarrow> py_exc + model" where
  "unpickle bytes =
     (if bytes = [] then Inl (PyExc ''EOFError'' ''Ran out of input'')
      else if bytes = ''xgb'' then Inr linear_model
      else Inl (PyExc ''UnpicklingError'' ''invalid load key''))"

text \<open>The installation, run with the hash seed \<open>seed\<close> and the arguments \<open>args\<close>.\<close>

definition world :: "int \<Rightarrow> string list \<Rightarrow> env" where
  "world seed args =
     \<lparr>import_module = (\<lambda>name. None),
      script_dir = ''/srv/app'',
      path_exists = (\<lambda>p. p = ''/srv/app/Model/xgb_model.pkl''),
      open_rb = (\<lambda>p. if p = ''/srv/app/Model/xgb_model.pkl'' then Inr ''xgb''
                       else Inl (PyExc ''FileNotFoundError'' p)),
      pickle_load = unpickle,
      argv = ''predict.py'' # args,
      py_hash = seeded_hash seed,
      to_datetime = iso_to_datetime\<rparr>"

text \<open>The same installation with the model file removed.\<close>

definition no_model_file :: "env \<Rightarrow> env" where
  "no_model_file e = e\<lparr>path_exists := (\<lambda>p. False)\<rparr>"

text \<open>The same installation without the xgboost package.\<close>

definition module_not_found :: "string \<Rightarrow> py_exc" where
  "module_not_found name =
     PyExc ''ModuleNotFoundError'' (''No module named '' @ [CHR 0x27] @ name @ [CHR 0x27])"

definition no_xgboost :: "env \<Rightarrow> env" where
  "no_xgboost e =
     e\<lparr>import_module := (import_module e)(''xgboost'' := Some (module_not_found ''xgboost''))\<rparr>"

text \<open>The same installation without pandas.\<close>

definition no_pandas :: "env \<Rightarrow> env" where
  "no_pandas e =
     e\<lparr>import_module := (import_module e)(''pandas'' := Some (module_not_found ''pandas''))\<rparr>"

text \<open>The same installation with other bytes in every file that exists.\<close>

definition model_file_bytes :: "string \<Rightarrow> env \<Rightarrow> env" where
  "model_file_bytes bytes e =
     e\<lparr>open_rb := (\<lambda>p. if path_exists e p then Inr bytes
                          else Inl (PyExc ''FileNotFoundError'' p))\<rparr>"

text \<open>
  The same installation at another moment: \<^verbatim>\<open>pd.to_datetime('today')\<close> is the
  timestamp of the clock, \<open>now\<close> nanoseconds after the epoch.
\<close>

definition at_time :: "int \<Rightarrow> env \<Rightarrow> env" where
  "at_time now e =
     e\<lparr>to_datetime := (\<lambda>s. if s = ''today'' then Inr (Timestamp now) else to_datetime e s)\<rparr>"

text \<open>
  A second run of \<^verbatim>\<open>AAPL 2023-01-01\<close> on the same installation: later, and in a
  process with another hash seed.
\<close>

definition later_run :: env where
  "later_run =
     at_time 1700000000000000000
       ((world 7 [''AAPL'', ''2023-01-01''])\<lparr>py_hash := seeded_hash 100000007\<rparr>)"

section \<open>Properties\<close>

lemmas run_defs = main_def load_model_def run_model_def preprocess_def make_prediction_def
  start_date_numeric_def ticker_numeric_def build_features_def model_path_def os_path_join_def
  join_step_def py_index_def exit_error_def uncaught_def

lemmas world_defs = world_def unpickle_def linear_model_def trained_names_def
  iso_to_datetime_def parse_iso_date_def digit_def days_from_civil_def ns_per_day_def
  seeded_hash_def no_model_file_def no_xgboost_def no_pandas_def module_not_found_def
  model_file_bytes_def at_time_def later_run_def

subsection \<open>The model path and the load\<close>

text \<open>Whatever the script's directory, the path ends in \<^verbatim>\<open>Model/xgb_model.pkl\<close>.\<close>

lemma model_path_suffix: "\<exists>pre. model_path e = pre @ ''Model/xgb_model.pkl''"
  by (simp add: model_path_def os_path_join_def join_step_def)

lemma model_path_world: "model_path (world s a) = ''/srv/app/Model/xgb_model.pkl''"
  by (simp add: model_path_def os_path_join_def join_step_def world_def)

lemma world_sel:
  "import_module (world s a) = (\<lambda>name. None)"
  "path_exists (world s a) = (\<lambda>p. p = ''/srv/app/Model/xgb_model.pkl'')"
  "open_rb (world s a) ''/srv/app/Model/xgb_model.pkl'' = Inr ''xgb''"
  "pickle_load (world s a) = unpickle"
  "argv (world s a) = ''predict.py'' # a"
  by (simp_all add: world_def)

lemma load_model_world: "load_model (world s a) = Inr linear_model"
  by (simp add: load_model_def model_path_world world_sel unpickle_def)

lemma load_model_Inr:
  "load_model e = Inr m \<longleftrightarrow>
     import_module e ''pandas'' = None \<and> import_module e ''numpy'' = None \<and>
     import_module e ''xgboost'' = None \<and> path_exists e (model_path e) \<and>
     (\<exists>f. open_rb e (model_path e) = Inr f \<and> pickle_load e f = Inr m)"
  by (auto simp: load_model_def split: sum.splits option.splits)

text \<open>No outcome of the first part of the script has called the model.\<close>

lemma load_model_no_calls: "load_model e = Inl out \<Longrightarrow> predict_calls out = []"
  by (auto simp: load_model_def exit_error_def uncaught_def
      split: sum.splits option.splits if_splits)

text \<open>Every one of them is a failure: the exit code is 1.\<close>

lemma load_model_exit: "load_model e = Inl out \<Longrightarrow> exit_code out = 1"
  by (auto simp: load_model_def exit_error_def uncaught_def
      split: sum.splits option.splits if_splits)

text \<open>What the model is called with is what the preprocessing built from the arguments.\<close>

lemma predict_calls_main:
  assumes "df \<in> set (predict_calls (main e))"
  shows "2 < length (argv e) \<and> preprocess e (argv e ! 1) (argv e ! 2) = Inr df"
proof (cases "load_model e")
  case (Inl out)
  then show ?thesis
    using assms load_model_no_calls [OF Inl] by (simp add: main_def)
next
  case (Inr m)
  then show ?thesis
    using assms
    by (auto simp: main_def run_model_def make_prediction_def py_index_def exit_error_def
        uncaught_def split: sum.splits if_splits)
qed

lemma main_aapl:
  "main (world 7 [''AAPL'', ''2023-01-01'']) =
     \<lparr>stdout = [JObj [(''ticker'', JStr ''AAPL''), (''start_date'', JStr ''2023-01-01''),
                      (''prediction'', JList [JNum (27824083 / 1000)])]],
      stderr = [], exit_code = 0,
      predict_calls = [[build_features 8466083 (CInt 19358)]]\<rparr>"
  by (simp add: main_def load_model_world) (simp add: run_defs world_defs)

lemma mentions_middle: "mentions (a @ p @ b) p"
  unfolding mentions_def list_ex_iff
  by (rule bexI [of _ "length a"]) auto

lemma mentions_append: "mentions (a @ p) p"
  using mentions_middle [of a p "[]"] by simp

subsection \<open>The error contract, and where it is left\<close>

text \<open>
  No outcome has both shapes, and once the model is loaded and two arguments are there,
  every run ends in one of them: each exception of the preprocessing and of the prediction
  is caught and printed as JSON.
\<close>

lemma never_both: "\<not> (json_success out \<and> json_failure out)"
  by (simp add: json_success_def json_failure_def)

lemma json_contract_once_loaded:
  assumes "load_model e = Inr m" and "2 < length (argv e)"
  shows "json_success (main e) \<or> json_failure (main e)"
  using assms
  by (auto simp: main_def run_model_def preprocess_def make_prediction_def py_index_def
      exit_error_def json_success_def json_failure_def split: sum.splits)

text \<open>
  The load itself is not guarded: an exception of \<^verbatim>\<open>open\<close> or of \<^verbatim>\<open>pickle.load\<close>
  reaches the top level.
\<close>

lemma open_failure_uncaught:
  "import_module e ''pandas'' = None \<Longrightarrow> import_module e ''numpy'' = None \<Longrightarrow>
   import_module e ''xgboost'' = None \<Longrightarrow> path_exists e (model_path e) \<Longrightarrow>
   open_rb e (model_path e) = Inl x \<Longrightarrow> main e = uncaught 23 x"
  by (simp add: main_def load_model_def)

lemma pickle_failure_uncaught:
  "import_module e ''pandas'' = None \<Longrightarrow> import_module e ''numpy'' = None \<Longrightarrow>
   import_module e ''xgboost'' = None \<Longrightarrow> path_exists e (model_path e) \<Longrightarrow>
   open_rb e (model_path e) = Inr f \<Longrightarrow> pickle_load e f = Inl x \<Longrightarrow>
   main e = uncaught 24 x"
  by (simp add: main_def load_model_def)

text \<open>
  Nor are the imports of pandas and numpy: without pandas the script ends at line 5,
  whatever else is missing.
\<close>

lemma pandas_failure_uncaught:
  "import_module e ''pandas'' = Some x \<Longrightarrow> main e = uncaught 5 x"
  by (simp add: main_def load_model_def)

lemma numpy_failure_uncaught:
  "import_module e ''pandas'' = None \<Longrightarrow> import_module e ''numpy'' = Some x \<Longrightarrow>
   main e = uncaught 6 x"
  by (simp add: main_def load_model_def)

lemma no_pandas_no_model_file:
  "main (no_pandas (no_model_file (world 7 [''AAPL'', ''2023-01-01'']))) =
     uncaught 5 (module_not_found ''pandas'')"
  by (simp add: main_def load_model_def no_pandas_def)

text \<open>
  Claim C1: with two arguments supplied, the process either exits 0 with a JSON document
  on stdout or exits 1 with an object \<^verbatim>\<open>{"error": message}\<close> on stderr, never both and
  never neither. The script does neither when the model file exists and is not a pickle:
  run with \<^verbatim>\<open>AAPL 2023-01-01\<close> on a file holding \<^verbatim>\<open>not a pickle\<close>, it ends with the
  traceback of line 24 on stderr, nothing on stdout and status 1.
\<close>

theorem unreadable_model_breaks_json_contract:
  "2 < length (argv (model_file_bytes ''not a pickle'' (world 7 [''AAPL'', ''2023-01-01''])))
   \<and> main (model_file_bytes ''not a pickle'' (world 7 [''AAPL'', ''2023-01-01''])) =
       uncaught 24 (PyExc ''UnpicklingError'' ''invalid load key'')
   \<and> \<not> json_success
         (main (model_file_bytes ''not a pickle'' (world 7 [''AAPL'', ''2023-01-01''])))
   \<and> \<not> json_failure
         (main (model_file_bytes ''not a pickle'' (world 7 [''AAPL'', ''2023-01-01''])))"
  by (simp add: run_defs world_defs json_success_def json_failure_def)

subsection \<open>Two runs\<close>

text \<open>
  Two runs with the same arguments on the same installation differ in one field of the
  world only, the string hash of the process. With the seeds 7 and 8 the ticker
  \<^verbatim>\<open>AAPL\<close> is encoded as 8466083 and as 9389604, and the predictions printed differ:
  the claim C2, identical predictions for identical arguments and model file, does not
  hold as stated.
\<close>

theorem hash_seed_changes_prediction:
  "stdout (main (world 7 [''AAPL'', ''2023-01-01''])) \<noteq>
   stdout (main ((world 7 [''AAPL'', ''2023-01-01''])\<lparr>py_hash := seeded_hash 8\<rparr>))"
  by (simp add: run_defs world_defs)

text \<open>
  The hash is not the only thing a second run may see differently. pandas reads the start
  date \<^verbatim>\<open>today\<close> off the clock, so two runs of \<^verbatim>\<open>AAPL today\<close> with the same hash
  seed, a day apart, print different predictions.
\<close>

lemma today_depends_on_clock:
  "stdout (main (at_time (19358 * ns_per_day) (world 7 [''AAPL'', ''today'']))) \<noteq>
   stdout (main (at_time (19359 * ns_per_day) (world 7 [''AAPL'', ''today''])))"
  by (simp add: run_defs world_defs)

text \<open>
  Claim C2, with what the two runs have to share: the same arguments, the same
  installation (each import does the same, the model file is at the same place with the
  same bytes, and the same bytes unpickle to the same model, which predicts as a function
  of its input), the same hash-based encoding of the ticker, which is the assumption the
  specification itself names, and the same result of \<^verbatim>\<open>pd.to_datetime\<close> on the start
  date. Two such runs have the same outcome, predictions included. Nothing else of the
  two worlds has to agree: neither the hash of any other string nor the parse of any
  other date.
\<close>

theorem same_inputs_same_outcome:
  assumes "argv e2 = argv e1"
    and "import_module e2 = import_module e1"
    and "script_dir e2 = script_dir e1"
    and "path_exists e2 (model_path e1) = path_exists e1 (model_path e1)"
    and "open_rb e2 (model_path e1) = open_rb e1 (model_path e1)"
    and "pickle_load e2 = pickle_load e1"
    and "ticker_numeric e2 (argv e1 ! 1) = ticker_numeric e1 (argv e1 ! 1)"
    and "to_datetime e2 (argv e1 ! 2) = to_datetime e1 (argv e1 ! 2)"
  shows "main e2 = main e1"
proof -
  have mp: "model_path e2 = model_path e1"
    using assms(3) by (simp add: model_path_def)
  have lm: "load_model e2 = load_model e1"
    unfolding load_model_def mp assms(2) assms(4) assms(5) assms(6) by (rule refl)
  have pp: "preprocess e2 (argv e1 ! 1) (argv e1 ! 2) =
            preprocess e1 (argv e1 ! 1) (argv e1 ! 2)"
    using assms(7,8) by (simp add: preprocess_def start_date_numeric_def)
  have rm: "run_model e2 m = run_model e1 m" for m
    using pp assms(1) by (simp add: run_model_def py_index_def)
  show ?thesis
    unfolding main_def lm rm by (rule refl)
qed

theorem same_inputs_same_outcome_witness:
  "argv later_run = argv (world 7 [''AAPL'', ''2023-01-01'']) \<and>
   import_module later_run = import_module (world 7 [''AAPL'', ''2023-01-01'']) \<and>
   script_dir later_run = script_dir (world 7 [''AAPL'', ''2023-01-01'']) \<and>
   path_exists later_run (model_path (world 7 [''AAPL'', ''2023-01-01''])) =
     path_exists (world 7 [''AAPL'', ''2023-01-01''])
       (model_path (world 7 [''AAPL'', ''2023-01-01''])) \<and>
   open_rb later_run (model_path (world 7 [''AAPL'', ''2023-01-01''])) =
     open_rb (world 7 [''AAPL'', ''2023-01-01''])
       (model_path (world 7 [''AAPL'', ''2023-01-01''])) \<and>
   pickle_load later_run = pickle_load (world 7 [''AAPL'', ''2023-01-01'']) \<and>
   ticker_numeric later_run (argv (world 7 [''AAPL'', ''2023-01-01'']) ! 1) =
     ticker_numeric (world 7 [''AAPL'', ''2023-01-01''])
       (argv (world 7 [''AAPL'', ''2023-01-01'']) ! 1) \<and>
   to_datetime later_run (argv (world 7 [''AAPL'', ''2023-01-01'']) ! 2) =
     to_datetime (world 7 [''AAPL'', ''2023-01-01''])
       (argv (world 7 [''AAPL'', ''2023-01-01'']) ! 2) \<and>
   py_hash later_run ''AAPL'' \<noteq> py_hash (world 7 [''AAPL'', ''2023-01-01'']) ''AAPL'' \<and>
   main later_run = main (world 7 [''AAPL'', ''2023-01-01''])"
proof -
  have a: "argv later_run = argv (world 7 [''AAPL'', ''2023-01-01''])"
    by (simp add: later_run_def at_time_def world_def)
  have i: "import_module later_run = import_module (world 7 [''AAPL'', ''2023-01-01''])"
    by (simp add: later_run_def at_time_def world_def)
  have d: "script_dir later_run = script_dir (world 7 [''AAPL'', ''2023-01-01''])"
    by (simp add: later_run_def at_time_def world_def)
  have x: "path_exists later_run (model_path (world 7 [''AAPL'', ''2023-01-01''])) =
           path_exists (world 7 [''AAPL'', ''2023-01-01''])
             (model_path (world 7 [''AAPL'', ''2023-01-01'']))"
    by (simp add: later_run_def at_time_def world_def)
  have b: "open_rb later_run (model_path (world 7 [''AAPL'', ''2023-01-01''])) =
           open_rb (world 7 [''AAPL'', ''2023-01-01''])
             (model_path (world 7 [''AAPL'', ''2023-01-01'']))"
    by (simp add: later_run_def at_time_def world_def)
  have l: "pickle_load later_run = pickle_load (world 7 [''AAPL'', ''2023-01-01''])"
    by (simp add: later_run_def at_time_def world_def)
  have t: "ticker_numeric later_run (argv (world 7 [''AAPL'', ''2023-01-01'']) ! 1) =
           ticker_numeric (world 7 [''AAPL'', ''2023-01-01''])
             (argv (world 7 [''AAPL'', ''2023-01-01'']) ! 1)"
    by (simp add: later_run_def at_time_def world_def ticker_numeric_def seeded_hash_def)
  have p: "to_datetime later_run (argv (world 7 [''AAPL'', ''2023-01-01'']) ! 2) =
           to_datetime (world 7 [''AAPL'', ''2023-01-01''])
             (argv (world 7 [''AAPL'', ''2023-01-01'']) ! 2)"
    by (simp add: later_run_def at_time_def world_def)
  have h: "py_hash later_run ''AAPL'' \<noteq> py_hash (world 7 [''AAPL'', ''2023-01-01'']) ''AAPL''"
    by (simp add: later_run_def at_time_def world_def seeded_hash_def)
  show ?thesis
    using a i d x b l t p h same_inputs_same_outcome [OF a i d x b l t p] by simp
qed

subsection \<open>The model file that does not unpickle\<close>

text \<open>
  Claim C3: if the model file exists but fails to deserialize, the process emits a
  structured JSON error on stderr and exits with a non-zero code. On an empty model file
  \<^verbatim>\<open>pickle.load\<close> raises \<^verbatim>\<open>EOFError\<close> at line 24, outside every \<^verbatim>\<open>try\<close>: the
  exit code is 1, but stderr holds the interpreter's traceback and no JSON object.
\<close>

theorem corrupt_model_uncaught:
  "path_exists (model_file_bytes [] (world 7 [''AAPL'', ''2023-01-01'']))
     (model_path (model_file_bytes [] (world 7 [''AAPL'', ''2023-01-01'']))) \<and>
   main (model_file_bytes [] (world 7 [''AAPL'', ''2023-01-01''])) =
     \<lparr>stdout = [], stderr = [Traceback 24 (PyExc ''EOFError'' ''Ran out of input'')],
      exit_code = 1, predict_calls = []\<rparr> \<and>
   \<not> list_ex is_error_line
       (stderr (main (model_file_bytes [] (world 7 [''AAPL'', ''2023-01-01'']))))"
  by (simp add: run_defs world_defs)

subsection \<open>The feature builder\<close>

text \<open>
  Claim C4 says that every successfully parsed start date gets its day offset from
  1970-01-01. pandas parses \<^verbatim>\<open>2023-01-01T00:00:00Z\<close> without complaint, to a
  timezone-aware timestamp; the subtraction of the naive epoch at line 36 then raises
  \<^verbatim>\<open>TypeError\<close>, and no \<^verbatim>\<open>start_date_numeric\<close> comes to be.
\<close>

theorem tz_aware_date_not_numeric:
  "to_datetime (world 7 [''AAPL'', ''2023-01-01T00:00:00Z'']) ''2023-01-01T00:00:00Z'' =
     Inr (TimestampTZ 1672531200000000000) \<and>
   start_date_numeric (world 7 [''AAPL'', ''2023-01-01T00:00:00Z'']) ''2023-01-01T00:00:00Z'' =
     Inl (PyExc ''TypeError'' ''Cannot subtract tz-naive and tz-aware datetime-like objects.'')"
  by (simp add: start_date_numeric_def world_defs)

text \<open>
  Claim C4, for the dates pandas parses to a timezone-naive timestamp: if the timestamp
  lies on day \<open>d\<close> counted from 1970-01-01 (negative before it), at \<open>t\<close> nanoseconds
  into that day, then \<^verbatim>\<open>start_date_numeric\<close> is the integer \<open>d\<close>. For
  \<^verbatim>\<open>1970-01-02\<close>, parsed to midnight of that day, it is 1.
\<close>

theorem start_date_numeric_days:
  assumes "to_datetime e start_date = Inr (Timestamp (d * ns_per_day + t))"
    and "0 \<le> t" and "t < ns_per_day"
  shows "start_date_numeric e start_date = Inr (CInt d)"
  using assms by (simp add: start_date_numeric_def ns_per_day_def)

theorem start_date_numeric_days_witness:
  "to_datetime (world 7 [''AAPL'', ''1970-01-02'']) ''1970-01-02'' =
     Inr (Timestamp (1 * ns_per_day + 0)) \<and>
   (0::int) \<le> 0 \<and> 0 < ns_per_day \<and>
   start_date_numeric (world 7 [''AAPL'', ''1970-01-02'']) ''1970-01-02'' = Inr (CInt 1)"
  using start_date_numeric_days
    [where e = "world 7 [''AAPL'', ''1970-01-02'']" and start_date = "''1970-01-02''"
       and d = 1 and t = 0]
  by (simp add: world_defs)

text \<open>
  Claim C6: for every ticker string the encoding is the absolute value of its hash modulo
  \<open>10\<^sup>8\<close>, an integer from 0 up to, not including, \<open>10\<^sup>8\<close>. That value, computed
  from the ticker given, stands in the column \<^verbatim>\<open>ticker\<close> of the one row the
  preprocessing builds, and, computed from the first argument, in every data frame the
  model is called with.
\<close>

theorem ticker_numeric_range:
  "ticker_numeric e ticker = \<bar>py_hash e ticker\<bar> mod 100000000 \<and>
   0 \<le> ticker_numeric e ticker \<and> ticker_numeric e ticker < 100000000 \<and>
   (preprocess e ticker start_date = Inr df \<longrightarrow>
      (\<exists>row. df = [row] \<and>
         map_of row ''ticker'' = Some (CInt (\<bar>py_hash e ticker\<bar> mod 100000000)))) \<and>
   (called \<in> set (predict_calls (main e)) \<longrightarrow>
      (\<exists>row. called = [row] \<and>
         map_of row ''ticker'' = Some (CInt (\<bar>py_hash e (argv e ! 1)\<bar> mod 100000000))))"
proof -
  have row: "\<exists>row. d = [row] \<and>
               map_of row ''ticker'' = Some (CInt (\<bar>py_hash e t\<bar> mod 100000000))"
    if "preprocess e t s = Inr d" for t s d
    using that
    by (auto simp: preprocess_def ticker_numeric_def build_features_def split: sum.splits)
  have "called \<in> set (predict_calls (main e)) \<longrightarrow>
          preprocess e (argv e ! 1) (argv e ! 2) = Inr called"
    using predict_calls_main [of called e] by simp
  then show ?thesis
    using row [of ticker start_date df] row [of "argv e ! 1" "argv e ! 2" called]
    by (simp add: ticker_numeric_def)
qed

theorem ticker_numeric_range_witness:
  "preprocess (world 7 [''AAPL'', ''2023-01-01'']) ''AAPL'' ''2023-01-01'' =
     Inr [build_features 8466083 (CInt 19358)] \<and>
   [build_features 8466083 (CInt 19358)] \<in>
     set (predict_calls (main (world 7 [''AAPL'', ''2023-01-01'']))) \<and>
   \<bar>py_hash (world 7 [''AAPL'', ''2023-01-01'']) ''AAPL''\<bar> mod 100000000 = 8466083 \<and>
   ticker_numeric (world 7 [''AAPL'', ''2023-01-01'']) ''AAPL'' = 8466083 \<and>
   map_of (build_features 8466083 (CInt 19358)) ''ticker'' = Some (CInt 8466083)"
proof -
  have p: "preprocess (world 7 [''AAPL'', ''2023-01-01'']) ''AAPL'' ''2023-01-01'' =
             Inr [build_features 8466083 (CInt 19358)]"
    by (simp add: preprocess_def start_date_numeric_def ticker_numeric_def world_defs)
  have c: "[build_features 8466083 (CInt 19358)] \<in>
             set (predict_calls (main (world 7 [''AAPL'', ''2023-01-01''])))"
    by (simp add: main_aapl)
  have h: "\<bar>py_hash (world 7 [''AAPL'', ''2023-01-01'']) ''AAPL''\<bar> mod 100000000 = 8466083"
    by (simp add: world_def seeded_hash_def)
  show ?thesis
    using p c h ticker_numeric_range
      [where e = "world 7 [''AAPL'', ''2023-01-01'']" and ticker = "''AAPL''"
         and start_date = "''2023-01-01''" and df = "[build_features 8466083 (CInt 19358)]"
         and called = "[build_features 8466083 (CInt 19358)]"]
    by (simp add: build_features_def)
qed

text \<open>
  Claim C7 names the first two of the ten fields \<^verbatim>\<open>ticker_numeric\<close> and
  \<^verbatim>\<open>start_date_numeric\<close>. Those are the script's variables; the keys of the dictionary,
  and so the columns of the data frame, are \<^verbatim>\<open>ticker\<close> and \<^verbatim>\<open>start_date\<close>. The
  record built for \<^verbatim>\<open>AAPL 2023-01-01\<close> has no field \<^verbatim>\<open>ticker_numeric\<close>.
\<close>

theorem feature_names_differ:
  "preprocess (world 7 [''AAPL'', ''2023-01-01'']) ''AAPL'' ''2023-01-01'' =
     Inr [build_features 8466083 (CInt 19358)] \<and>
   map fst (build_features 8466083 (CInt 19358)) \<noteq> spec_field_names \<and>
   map_of (build_features 8466083 (CInt 19358)) ''ticker_numeric'' = None"
  by (simp add: preprocess_def start_date_numeric_def ticker_numeric_def world_defs
      build_features_def spec_field_names_def)

text \<open>
  Claim C7, with the names the code uses: every feature record the script builds is a
  single row of exactly ten fields, named \<^verbatim>\<open>ticker\<close>, \<^verbatim>\<open>start_date\<close> and
  \<^verbatim>\<open>feature_1\<close> to \<^verbatim>\<open>feature_8\<close> in this order. The field \<^verbatim>\<open>ticker\<close> holds
  \<^verbatim>\<open>ticker_numeric\<close> of the ticker, \<^verbatim>\<open>start_date\<close> holds what
  \<^verbatim>\<open>start_date_numeric\<close> came to for the start date, and the eight placeholders are the
  integer 0. The records the model is called with are the records built so from the two
  arguments.
\<close>

theorem feature_record_shape:
  "(preprocess e ticker start_date = Inr df \<longrightarrow>
      length df = 1 \<and> length (hd df) = 10 \<and>
      map fst (hd df) =
        [''ticker'', ''start_date'', ''feature_1'', ''feature_2'', ''feature_3'',
         ''feature_4'', ''feature_5'', ''feature_6'', ''feature_7'', ''feature_8''] \<and>
      map snd (drop 2 (hd df)) =
        [CInt 0, CInt 0, CInt 0, CInt 0, CInt 0, CInt 0, CInt 0, CInt 0] \<and>
      (\<exists>sdn. start_date_numeric e start_date = Inr sdn \<and>
         df = [[(''ticker'', CInt (\<bar>py_hash e ticker\<bar> mod 100000000)),
                (''start_date'', sdn),
                (''feature_1'', CInt 0), (''feature_2'', CInt 0), (''feature_3'', CInt 0),
                (''feature_4'', CInt 0), (''feature_5'', CInt 0), (''feature_6'', CInt 0),
                (''feature_7'', CInt 0), (''feature_8'', CInt 0)]])) \<and>
   (called \<in> set (predict_calls (main e)) \<longrightarrow>
      2 < length (argv e) \<and> preprocess e (argv e ! 1) (argv e ! 2) = Inr called)"
proof -
  have "preprocess e ticker start_date = Inr df \<longrightarrow>
          (\<exists>sdn. start_date_numeric e start_date = Inr sdn \<and>
             df = [[(''ticker'', CInt (\<bar>py_hash e ticker\<bar> mod 100000000)),
                    (''start_date'', sdn),
                    (''feature_1'', CInt 0), (''feature_2'', CInt 0), (''feature_3'', CInt 0),
                    (''feature_4'', CInt 0), (''feature_5'', CInt 0), (''feature_6'', CInt 0),
                    (''feature_7'', CInt 0), (''feature_8'', CInt 0)]])"
    by (auto simp: preprocess_def ticker_numeric_def build_features_def split: sum.splits)
  moreover have "called \<in> set (predict_calls (main e)) \<longrightarrow>
          2 < length (argv e) \<and> preprocess e (argv e ! 1) (argv e ! 2) = Inr called"
    using predict_calls_main [of called e] by simp
  ultimately show ?thesis by auto
qed

theorem feature_record_shape_witness:
  "preprocess (world 7 [''AAPL'', ''2023-01-01'']) ''AAPL'' ''2023-01-01'' =
     Inr [build_features 8466083 (CInt 19358)] \<and>
   [build_features 8466083 (CInt 19358)] \<in>
     set (predict_calls (main (world 7 [''AAPL'', ''2023-01-01'']))) \<and>
   start_date_numeric (world 7 [''AAPL'', ''2023-01-01'']) ''2023-01-01'' = Inr (CInt 19358) \<and>
   [build_features 8466083 (CInt 19358)] =
     [[(''ticker'', CInt 8466083), (''start_date'', CInt 19358),
       (''feature_1'', CInt 0), (''feature_2'', CInt 0), (''feature_3'', CInt 0),
       (''feature_4'', CInt 0), (''feature_5'', CInt 0), (''feature_6'', CInt 0),
       (''feature_7'', CInt 0), (''feature_8'', CInt 0)]]"
proof -
  have p: "preprocess (world 7 [''AAPL'', ''2023-01-01'']) ''AAPL'' ''2023-01-01'' =
             Inr [build_features 8466083 (CInt 19358)]"
    by (simp add: preprocess_def start_date_numeric_def ticker_numeric_def world_defs)
  have c: "[build_features 8466083 (CInt 19358)] \<in>
             set (predict_calls (main (world 7 [''AAPL'', ''2023-01-01''])))"
    by (simp add: main_aapl)
  show ?thesis
    using p c feature_record_shape
      [where e = "world 7 [''AAPL'', ''2023-01-01'']" and ticker = "''AAPL''"
         and start_date = "''2023-01-01''" and df = "[build_features 8466083 (CInt 19358)]"
         and called = "[build_features 8466083 (CInt 19358)]"]
    by (simp add: build_features_def)
qed




subsection \<open>The prediction\<close>

text \<open>
  Claim C5: on success (exit code 0) stdout holds exactly one JSON object with the keys
  \<^verbatim>\<open>ticker\<close>, \<^verbatim>\<open>start_date\<close> and \<^verbatim>\<open>prediction\<close>; the first two values are the
  two command-line arguments as they were given, the third is a list of numbers. The run
  with \<^verbatim>\<open>AAPL 2023-01-01\<close> prints \<^verbatim>\<open>"ticker": "AAPL"\<close> and
  \<^verbatim>\<open>"start_date": "2023-01-01"\<close>.
\<close>

theorem success_output_shape:
  assumes "exit_code (main e) = 0"
  shows "2 < length (argv e) \<and>
         (\<exists>prediction. stdout (main e) =
            [JObj [(''ticker'', JStr (argv e ! 1)), (''start_date'', JStr (argv e ! 2)),
                   (''prediction'', JList (map JNum prediction))]]) \<and>
         stderr (main e) = []"
proof (cases "load_model e")
  case (Inl out)
  then show ?thesis
    using assms load_model_exit [OF Inl] by (simp add: main_def)
next
  case (Inr m)
  then show ?thesis
    using assms
    by (auto simp: main_def run_model_def make_prediction_def py_index_def
        exit_error_def uncaught_def split: sum.splits if_splits)
qed

theorem success_output_shape_witness:
  "exit_code (main (world 7 [''AAPL'', ''2023-01-01''])) = 0 \<and>
   stdout (main (world 7 [''AAPL'', ''2023-01-01''])) =
     [JObj [(''ticker'', JStr ''AAPL''), (''start_date'', JStr ''2023-01-01''),
            (''prediction'', JList [JNum (27824083 / 1000)])]]"
  using success_output_shape [where e = "world 7 [''AAPL'', ''2023-01-01'']"]
  by (simp add: main_aapl)

subsection \<open>The missing model file, the missing arguments\<close>

text \<open>
  Claim C9 promises, whenever the model file is absent, an error that mentions the missing
  path. The imports come first: without the xgboost package the run ends at line 12, and
  its message names the package, not the path.
\<close>

theorem missing_model_and_missing_xgboost:
  "\<not> path_exists (no_xgboost (no_model_file (world 7 [''AAPL'', ''2023-01-01''])))
        (model_path (no_xgboost (no_model_file (world 7 [''AAPL'', ''2023-01-01''])))) \<and>
   main (no_xgboost (no_model_file (world 7 [''AAPL'', ''2023-01-01'']))) =
     exit_error xgboost_msg [] \<and>
   \<not> mentions xgboost_msg
        (model_path (no_xgboost (no_model_file (world 7 [''AAPL'', ''2023-01-01'']))))"
  by (simp add: run_defs world_defs mentions_def xgboost_msg_def)

text \<open>
  Claim C9, where the three imports of lines 5, 6 and 9 succeed: if the model file is
  absent at \<^verbatim>\<open>Model/xgb_model.pkl\<close> under the script's directory, the process exits
  with code 1, writes nothing to stdout, and stderr holds one error object whose message
  is \<^verbatim>\<open>Model file not found at\<close> followed by that path.
\<close>

theorem missing_model_reported:
  assumes "import_module e ''pandas'' = None" and "import_module e ''numpy'' = None"
    and "import_module e ''xgboost'' = None" and "\<not> path_exists e (model_path e)"
  shows "main e =
           \<lparr>stdout = [],
            stderr = [ErrJson (JObj [(''error'',
                        JStr (''Model file not found at '' @ model_path e))])],
            exit_code = 1, predict_calls = []\<rparr> \<and>
         mentions (''Model file not found at '' @ model_path e) (model_path e) \<and>
         model_path e = os_path_join (script_dir e) [''Model'', ''xgb_model.pkl''] \<and>
         (\<exists>pre. model_path e = pre @ ''Model/xgb_model.pkl'')"
proof -
  have "main e = exit_error (''Model file not found at '' @ model_path e) []"
    using assms by (simp add: main_def load_model_def)
  moreover have "mentions (''Model file not found at '' @ model_path e) (model_path e)"
    by (rule mentions_append)
  moreover have "model_path e = os_path_join (script_dir e) [''Model'', ''xgb_model.pkl'']"
    by (rule model_path_def)
  moreover have "\<exists>pre. model_path e = pre @ ''Model/xgb_model.pkl''"
    by (rule model_path_suffix)
  ultimately show ?thesis by (simp only: exit_error_def simp_thms)
qed

theorem missing_model_reported_witness:
  "import_module (no_model_file (world 7 [''AAPL'', ''2023-01-01''])) ''pandas'' = None \<and>
   import_module (no_model_file (world 7 [''AAPL'', ''2023-01-01''])) ''numpy'' = None \<and>
   import_module (no_model_file (world 7 [''AAPL'', ''2023-01-01''])) ''xgboost'' = None \<and>
   \<not> path_exists (no_model_file (world 7 [''AAPL'', ''2023-01-01'']))
        (model_path (no_model_file (world 7 [''AAPL'', ''2023-01-01'']))) \<and>
   main (no_model_file (world 7 [''AAPL'', ''2023-01-01''])) =
     \<lparr>stdout = [],
      stderr = [ErrJson (JObj [(''error'',
                  JStr ''Model file not found at /srv/app/Model/xgb_model.pkl'')])],
      exit_code = 1, predict_calls = []\<rparr>"
  using missing_model_reported [where e = "no_model_file (world 7 [''AAPL'', ''2023-01-01''])"]
  by (simp add: no_model_file_def world_def model_path_def os_path_join_def join_step_def)

text \<open>
  Claim C10 says that every run with fewer than two arguments dies of an uncaught
  exception at the argument access and prints no error object of its own. The arguments
  are read after the model is loaded: without the model file, the run with no argument
  ends at line 20 by \<^verbatim>\<open>sys.exit(1)\<close>, with the script's own error object on stderr.
\<close>

theorem no_arguments_without_model_file:
  "length (argv (no_model_file (world 7 []))) < 3 \<and>
   main (no_model_file (world 7 [])) =
     exit_error ''Model file not found at /srv/app/Model/xgb_model.pkl'' [] \<and>
   list_ex is_error_line (stderr (main (no_model_file (world 7 []))))"
  by (simp add: run_defs world_defs)

text \<open>
  Claim C10, for the runs in which the model is loaded (pandas, numpy and xgboost
  imported, the model file there and unpickled): with fewer than two arguments
  (\<^verbatim>\<open>sys.argv\<close> shorter than 3) the process ends by an uncaught \<^verbatim>\<open>IndexError\<close> at
  the argument access, line 27 when both are missing and line 28 when the second is; the
  exit status is 1, stdout is empty and stderr holds the traceback and no error object.
\<close>

theorem missing_arguments_uncaught:
  assumes "load_model e = Inr m" and "length (argv e) < 3"
  shows "main e =
           \<lparr>stdout = [],
            stderr = [Traceback (if length (argv e) < 2 then 27 else 28)
                        (PyExc ''IndexError'' ''list index out of range'')],
            exit_code = 1, predict_calls = []\<rparr> \<and>
         \<not> list_ex is_error_line (stderr (main e))"
  using assms
  by (auto simp: main_def run_model_def py_index_def uncaught_def)

theorem missing_arguments_uncaught_witness:
  "load_model (world 7 [''AAPL'']) = Inr linear_model \<and>
   length (argv (world 7 [''AAPL''])) < 3 \<and>
   main (world 7 [''AAPL'']) =
     \<lparr>stdout = [],
      stderr = [Traceback 28 (PyExc ''IndexError'' ''list index out of range'')],
      exit_code = 1, predict_calls = []\<rparr>"
proof -
  have l: "load_model (world 7 [''AAPL'']) = Inr linear_model"
    by (rule load_model_world)
  have a: "length (argv (world 7 [''AAPL''])) < 3"
    by (simp add: world_def)
  show ?thesis
    using l a missing_arguments_uncaught [OF l a] by (simp add: world_def)
qed

end
